theory Spec2Isabelle
  imports Main
begin

section \<open>Python values shared by both scrapers\<close>

text \<open>
  Exceptions are values. Only the exception classes that the two programs can meet are
  listed; \<open>Fault\<close> stands for any other subclass of \<open>Exception\<close> raised by a collaborator.
\<close>

datatype error = ValueError | OverflowError | Fault string

subsection \<open>Strings\<close>

text \<open>
  Strings are lists of characters with code points below 256. \<open>str_in sub s\<close> is
  Python's \<open>sub in s\<close>, \<open>startswith s p\<close> is \<open>s.startswith(p)\<close>.
\<close>

fun startswith :: "string \<Rightarrow> string \<Rightarrow> bool" where
  "startswith s [] = True"
| "startswith [] (p # ps) = False"
| "startswith (c # cs) (p # ps) = (c = p \<and> startswith cs ps)"

fun str_in :: "string \<Rightarrow> string \<Rightarrow> bool" where
  "str_in sub [] = (sub = [])"
| "str_in sub (c # cs) = (startswith (c # cs) sub \<or> str_in sub cs)"

definition is_space :: "char \<Rightarrow> bool" where
  "is_space c = (of_char c \<in> {9, 10, 11, 12, 13, 28, 29, 30, 31, 32, 133, 160 :: nat})"

definition strip :: "string \<Rightarrow> string" where
  "strip s = rev (dropWhile is_space (rev (dropWhile is_space s)))"

definition lower :: "string \<Rightarrow> string" where
  "lower s = map (\<lambda>c. if 65 \<le> (of_char c :: nat) \<and> (of_char c :: nat) \<le> 90
                        then char_of (of_char c + 32 :: nat) else c) s"

definition is_digit :: "char \<Rightarrow> bool" where
  "is_digit c = (c \<in> set ''0123456789'')"

definition digit_char :: "nat \<Rightarrow> char" where
  "digit_char n = ''0123456789'' ! (n mod 10)"

definition digit_val :: "char \<Rightarrow> nat" where
  "digit_val c = of_char c - 48"

text \<open>\<open>str(n)\<close> for a non-negative integer: its decimal digits.\<close>

function str_nat :: "nat \<Rightarrow> string" where
  "str_nat n = (if n < 10 then [digit_char n] else str_nat (n div 10) @ [digit_char (n mod 10)])"
  by pat_completeness auto
termination
  by (relation "measure id") auto

declare str_nat.simps [simp del]

text \<open>The format \<open>%0wd\<close> on a non-negative integer: zero padding up to the width \<open>w\<close>.\<close>

definition zero_pad :: "nat \<Rightarrow> nat \<Rightarrow> string" where
  "zero_pad w n = replicate (w - length (str_nat n)) (CHR ''0'') @ str_nat n"

text \<open>
  \<open>int(s)\<close> on the strings the regular expressions deliver (a group \<open>\d+\<close> or
  \<open>\d\d\<close>): a non-empty string of decimal digits. Anything else is a \<open>ValueError\<close>.
\<close>

definition py_int :: "string \<Rightarrow> error + nat" where
  "py_int s =
     (if s \<noteq> [] \<and> list_all is_digit s
      then Inr (foldl (\<lambda>a c. 10 * a + digit_val c) 0 s)
      else Inl ValueError)"

subsection \<open>The \<open>datetime\<close> objects of the standard library\<close>

text \<open>
  A \<open>datetime\<close> carries the calendar fields, the time of day and an optional time zone
  (its offset from UTC in seconds; \<open>timezone.utc\<close> is offset 0).
\<close>

record datetime =
  year :: int
  month :: int
  day :: int
  hour :: int
  minute :: int
  second :: int
  microsecond :: int
  tzinfo :: "int option"

definition MINYEAR :: int where "MINYEAR = 1"
definition MAXYEAR :: int where "MAXYEAR = 9999"

definition is_leap :: "int \<Rightarrow> bool" where
  "is_leap y = (y mod 4 = 0 \<and> (y mod 100 \<noteq> 0 \<or> y mod 400 = 0))"

text \<open>The library's table of month lengths and of the days before each month.\<close>

definition DAYS_IN_MONTH :: "int \<Rightarrow> int" where
  "DAYS_IN_MONTH m =
     (if m = 2 then 28 else if m = 4 \<or> m = 6 \<or> m = 9 \<or> m = 11 then 30 else 31)"

definition DAYS_BEFORE_MONTH :: "int \<Rightarrow> int" where
  "DAYS_BEFORE_MONTH m =
     (if m = 1 then 0 else if m = 2 then 31 else if m = 3 then 59 else if m = 4 then 90
      else if m = 5 then 120 else if m = 6 then 151 else if m = 7 then 181
      else if m = 8 then 212 else if m = 9 then 243 else if m = 10 then 273
      else if m = 11 then 304 else 334)"

definition lib_days_in_month :: "int \<Rightarrow> int \<Rightarrow> int" where
  "lib_days_in_month y m = (if m = 2 \<and> is_leap y then 29 else DAYS_IN_MONTH m)"

definition days_before_year :: "int \<Rightarrow> int" where
  "days_before_year y =
     (let p = y - 1 in p * 365 + p div 4 - p div 100 + p div 400)"

definition days_before_month :: "int \<Rightarrow> int \<Rightarrow> int" where
  "days_before_month y m = DAYS_BEFORE_MONTH m + (if m > 2 \<and> is_leap y then 1 else 0)"

definition toordinal :: "datetime \<Rightarrow> int" where
  "toordinal dt = days_before_year (year dt) + days_before_month (year dt) (month dt) + day dt"

text \<open>
  The constructor (and \<open>replace\<close>, which calls it) checks every field and raises
  \<open>ValueError\<close> outside the ranges.
\<close>

definition check_date_fields :: "int \<Rightarrow> int \<Rightarrow> int \<Rightarrow> bool" where
  "check_date_fields y m d =
     (MINYEAR \<le> y \<and> y \<le> MAXYEAR \<and> 1 \<le> m \<and> m \<le> 12 \<and> 1 \<le> d \<and> d \<le> lib_days_in_month y m)"

definition check_time_fields :: "int \<Rightarrow> int \<Rightarrow> int \<Rightarrow> int \<Rightarrow> bool" where
  "check_time_fields h mi s us =
     (0 \<le> h \<and> h \<le> 23 \<and> 0 \<le> mi \<and> mi \<le> 59 \<and> 0 \<le> s \<and> s \<le> 59 \<and> 0 \<le> us \<and> us \<le> 999999)"

definition valid_datetime :: "datetime \<Rightarrow> bool" where
  "valid_datetime dt =
     (check_date_fields (year dt) (month dt) (day dt) \<and>
      check_time_fields (hour dt) (minute dt) (second dt) (microsecond dt))"

definition datetime_new ::
  "int \<Rightarrow> int \<Rightarrow> int \<Rightarrow> int \<Rightarrow> int \<Rightarrow> int \<Rightarrow> int \<Rightarrow> int option \<Rightarrow> error + datetime" where
  "datetime_new y m d h mi s us tz =
     (if check_date_fields y m d \<and> check_time_fields h mi s us
      then Inr \<lparr>year = y, month = m, day = d, hour = h, minute = mi, second = s,
                microsecond = us, tzinfo = tz\<rparr>
      else Inl ValueError)"

definition replace_date :: "datetime \<Rightarrow> int \<Rightarrow> int \<Rightarrow> int \<Rightarrow> error + datetime" where
  "replace_date dt y m d =
     datetime_new y m d (hour dt) (minute dt) (second dt) (microsecond dt) (tzinfo dt)"

text \<open>
  \<open>(a - b).days\<close> for two datetimes of the same time zone: the difference in microseconds,
  normalised so that the seconds and microseconds of the \<open>timedelta\<close> are non-negative.
\<close>

definition seconds_of_day :: "datetime \<Rightarrow> int" where
  "seconds_of_day dt = hour dt * 3600 + minute dt * 60 + second dt"

definition sub_days :: "datetime \<Rightarrow> datetime \<Rightarrow> int" where
  "sub_days a b =
     (((toordinal a - toordinal b) * 86400 + (seconds_of_day a - seconds_of_day b)) * 1000000
        + (microsecond a - microsecond b)) div 86400000000"

definition utc :: "int option" where "utc = Some 0"

subsection \<open>Formatting and parsing datetimes\<close>

text \<open>
  \<open>dt.isoformat()\<close>: date, \<open>T\<close>, time; the microseconds are printed only when they
  are not zero, and the offset only for a datetime with a time zone.
\<close>

definition format_offset :: "int option \<Rightarrow> string" where
  "format_offset off =
     (case off of
        None \<Rightarrow> []
      | Some secs \<Rightarrow>
          (let a = nat \<bar>secs\<bar>; hh = a div 3600; mm = (a mod 3600) div 60; ss = a mod 60
           in (if secs < 0 then ''-'' else ''+'') @ zero_pad 2 hh @ '':'' @ zero_pad 2 mm
                @ (if ss \<noteq> 0 then '':'' @ zero_pad 2 ss else [])))"

definition isoformat :: "datetime \<Rightarrow> string" where
  "isoformat dt =
     zero_pad 4 (nat (year dt)) @ ''-'' @ zero_pad 2 (nat (month dt)) @ ''-''
       @ zero_pad 2 (nat (day dt)) @ ''T''
       @ zero_pad 2 (nat (hour dt)) @ '':'' @ zero_pad 2 (nat (minute dt)) @ '':''
       @ zero_pad 2 (nat (second dt))
       @ (if microsecond dt \<noteq> 0 then ''.'' @ zero_pad 6 (nat (microsecond dt)) else [])
       @ format_offset (tzinfo dt)"

text \<open>
  \<open>dt.strftime("%Y-%m-%dT%H:%M:%S.000Z")\<close>. The documented \<open>%Y\<close> is the year as four
  digits; the C library under some interpreters prints a year below 1000 without the
  leading zeros, so the properties below speak about years from 1000 on, where both agree.
\<close>

definition strftime_iso_000Z :: "datetime \<Rightarrow> string" where
  "strftime_iso_000Z dt =
     zero_pad 4 (nat (year dt)) @ ''-'' @ zero_pad 2 (nat (month dt)) @ ''-''
       @ zero_pad 2 (nat (day dt)) @ ''T''
       @ zero_pad 2 (nat (hour dt)) @ '':'' @ zero_pad 2 (nat (minute dt)) @ '':''
       @ zero_pad 2 (nat (second dt)) @ ''.000Z''"

text \<open>
  \<open>datetime.strptime(s, format)\<close> for the formats the parser uses. A format is a list of
  directives; each directive stands for the regular expression the library compiles it to,
  tried in the order of its alternatives:
  \<^item> \<open>%d\<close>: \<open>3[0-1]|[1-2]\d|0[1-9]|[1-9]| [1-9]\<close>
  \<^item> \<open>%m\<close>: \<open>1[0-2]|0[1-9]|[1-9]\<close>
  \<^item> \<open>%Y\<close>: \<open>\d\d\d\d\<close>, \<open>%y\<close>: \<open>\d\d\<close>
  The match starts at the beginning of the string; text left over after it, a date that
  does not exist or a year 0 raise \<open>ValueError\<close>.
\<close>

datatype directive = Dir_d | Dir_m | Dir_Y | Dir_y | Lit char

definition is_digit19 :: "char \<Rightarrow> bool" where
  "is_digit19 c = (c \<in> set ''123456789'')"

text \<open>The texts one directive can match at the start of \<open>s\<close>, in the order tried.\<close>

fun alternatives :: "directive \<Rightarrow> string \<Rightarrow> string list" where
  "alternatives Dir_d s =
     (case s of
        [] \<Rightarrow> []
      | [a] \<Rightarrow> (if is_digit19 a then [[a]] else [])
      | a # b # _ \<Rightarrow>
          (if a = CHR ''3'' \<and> (b = CHR ''0'' \<or> b = CHR ''1'') then [[a, b]] else []) @
          (if (a = CHR ''1'' \<or> a = CHR ''2'') \<and> is_digit b then [[a, b]] else []) @
          (if a = CHR ''0'' \<and> is_digit19 b then [[a, b]] else []) @
          (if is_digit19 a then [[a]] else []) @
          (if a = CHR '' '' \<and> is_digit19 b then [[a, b]] else []))"
| "alternatives Dir_m s =
     (case s of
        [] \<Rightarrow> []
      | [a] \<Rightarrow> (if is_digit19 a then [[a]] else [])
      | a # b # _ \<Rightarrow>
          (if a = CHR ''1'' \<and> (b = CHR ''0'' \<or> b = CHR ''1'' \<or> b = CHR ''2'') then [[a, b]] else []) @
          (if a = CHR ''0'' \<and> is_digit19 b then [[a, b]] else []) @
          (if is_digit19 a then [[a]] else []))"
| "alternatives Dir_Y s =
     (if 4 \<le> length s \<and> list_all is_digit (take 4 s) then [take 4 s] else [])"
| "alternatives Dir_y s =
     (if 2 \<le> length s \<and> list_all is_digit (take 2 s) then [take 2 s] else [])"
| "alternatives (Lit c) s =
     (case s of [] \<Rightarrow> [] | a # _ \<Rightarrow> (if a = c then [[a]] else []))"

text \<open>
  Backtracking match of a whole format: the first choice of alternatives under which the
  rest of the format matches too. The result is the text of each directive and the text
  left over.
\<close>

fun first_match :: "('a \<Rightarrow> 'b option) \<Rightarrow> 'a list \<Rightarrow> 'b option" where
  "first_match f [] = None"
| "first_match f (x # xs) = (case f x of Some y \<Rightarrow> Some y | None \<Rightarrow> first_match f xs)"

fun match_format :: "directive list \<Rightarrow> string \<Rightarrow> ((directive \<times> string) list \<times> string) option" where
  "match_format [] s = Some ([], s)"
| "match_format (d # ds) s =
     first_match
       (\<lambda>m. case match_format ds (drop (length m) s) of
               None \<Rightarrow> None
             | Some (found, rest) \<Rightarrow> Some ((d, m) # found, rest))
       (alternatives d s)"

definition found_value :: "(directive \<times> string) list \<Rightarrow> directive \<Rightarrow> nat option" where
  "found_value found d =
     (case map_of found d of
        None \<Rightarrow> None
      | Some m \<Rightarrow> Some (foldl (\<lambda>a c. 10 * a + digit_val c) 0 (filter is_digit m)))"

text \<open>
  Without a year directive the year is 1900; a two-digit year up to 68 is in 2000-2068,
  from 69 on in 1969-1999. Month and day default to 1.
\<close>

definition strptime :: "string \<Rightarrow> directive list \<Rightarrow> error + datetime" where
  "strptime s format =
     (case match_format format s of
        None \<Rightarrow> Inl ValueError
      | Some (found, rest) \<Rightarrow>
          if rest \<noteq> [] then Inl ValueError
          else
            (let y = (case found_value found Dir_Y of
                        Some v \<Rightarrow> int v
                      | None \<Rightarrow>
                          (case found_value found Dir_y of
                             Some v \<Rightarrow> (if v \<le> 68 then 2000 + int v else 1900 + int v)
                           | None \<Rightarrow> 1900));
                 m = (case found_value found Dir_m of Some v \<Rightarrow> int v | None \<Rightarrow> 1);
                 d = (case found_value found Dir_d of Some v \<Rightarrow> int v | None \<Rightarrow> 1)
             in datetime_new y m d 0 0 0 0 None))"

section \<open>RepackGames: \<open>RepackGames.py\<close>\<close>

subsection \<open>Collaborators: the markup parser, regular expressions, the clock\<close>

text \<open>
  A parsed page is seen through the queries the program makes on it. Each field is the
  result of one query of the source:
  \<^item> \<open>wrap_content\<close>: \<open>soup.find('div', class_='wrap-content')\<close>, and inside it
    \<open>article_btn\<close> (the text of \<open>div.article-btn\<close>), \<open>articles_content\<close> (for every
    \<open>article.article\<close> of \<open>div.articles-content\<close>, the \<open>href\<close> of the link in its
    \<open>h2.article-title\<close>), \<open>modern_articles\<close> (for every \<open>li\<close> of \<open>ul.modern-articles\<close>,
    the \<open>href\<close> of its first link) and \<open>all_articles\<close> (for every \<open>article\<close>, the
    \<open>href\<close>s of all its links);
  \<^item> \<open>game_info\<close>: the text of \<open>div.game-info\<close>; \<open>time_article\<close>: the text of
    \<open>div.time-article.updated\<close>; \<open>article_title\<close>: the text of \<open>h1.article-title.entry-title\<close>;
  \<^item> \<open>gp_download_buttons\<close>, \<open>enjoy_css\<close>: the links of these classes in page order,
    each with the upper-cased text around it (\<open>context_text\<close>) and its \<open>href\<close>;
  \<^item> \<open>pages\<close>: the text of \<open>span.pages\<close> inside \<open>div.wp-pagenavi\<close>.
\<close>

record wrap =
  article_btn :: "string option"
  articles_content :: "string option list option"
  modern_articles :: "string option list option"
  all_articles :: "string list list"

record button =
  context_text :: string
  href :: "string option"

record soup =
  wrap_content :: "wrap option"
  game_info :: "string option"
  time_article :: "string option"
  article_title :: "string option"
  gp_download_buttons :: "button list"
  enjoy_css :: "button list"
  pages :: "string option"

text \<open>
  The regular expressions of the two programs, by name:
  \<^item> \<open>Game_size\<close>: \<open>Game size:\s*([0-9.]+\s*[KMGT]B\+?)\<close>, \<open>Size\<close>:
    \<open>Size:\s*([0-9.]+\s*[KMGT]B\+?)\<close>, \<open>Any_size\<close>: \<open>([0-9.]+\s*[KMGT]B\+?)\<close>;
  \<^item> \<open>Date_on\<close>: \<open>(?:UPDATED|PUBLISHED)\s+O[nm]\s*-\s*(\d{1,2}[-/]\d{1,2}[-/]\d{4})\<close>,
    \<open>Date_colon\<close>: \<open>(?:UPDATED|PUBLISHED)\s*:\s*(\d{1,2}[-/]\d{1,2}[-/]\d{4})\<close>,
    \<open>Date_after\<close>: \<open>(?:UPDATED|PUBLISHED)\s+(\d{1,2}[-/]\d{1,2}[-/]\d{4})\<close>,
    \<open>Any_date\<close>: \<open>(\d{1,2}[-/]\d{1,2}[-/]\d{4})\<close>;
  \<^item> \<open>Page_of\<close>: \<open>Page \d+ of (\d+)\<close>;
  \<^item> \<open>Last_updated\<close>: \<open>last\s*updated[^\d]*(\d+)\s+month\<close>, \<open>Published_on\<close>:
    \<open>published\s*on[^\d]*(\d+)\s+month\<close> (AnkerGames);
  \<^item> \<open>Ago u\<close>: \<open>(\d+)\s+(u|us)\s+ago\<close> for the unit \<open>u\<close>, with two groups.
\<close>

datatype pattern =
  Game_size | Size | Any_size | Date_on | Date_colon | Date_after | Any_date | Page_of
  | Last_updated | Published_on

datatype time_unit = Year | Month | Week | Day | Hour | Minute | Second

text \<open>
  The library functions the parser calls: \<open>BeautifulSoup(html, 'html.parser')\<close>;
  \<open>re.search\<close>, which yields \<open>group(1)\<close> of the leftmost match (and \<open>group(2)\<close> for
  the patterns with two groups); \<open>datetime.now()\<close>; and \<open>dt - timedelta(seconds=n)\<close>,
  which raises \<open>OverflowError\<close> when the result is out of range.
\<close>

record lib =
  BeautifulSoup :: "string \<Rightarrow> soup"
  search :: "pattern \<Rightarrow> string \<Rightarrow> string option"
  search_ago :: "time_unit \<Rightarrow> string \<Rightarrow> (string \<times> string) option"
  now :: datetime
  minus_seconds :: "datetime \<Rightarrow> int \<Rightarrow> error + datetime"

text \<open>
  The progress display: \<open>add_task\<close> and \<open>update\<close> may raise. Only the two calls the
  source does not guard appear in the model.
\<close>

record progress =
  add_task :: "string \<Rightarrow> error + nat"
  update :: "nat \<Rightarrow> string \<Rightarrow> error option"

subsection \<open>The parser object and the network\<close>

record game =
  title :: string
  uris :: "string list"
  fileSize :: string
  uploadDate :: "string option"
  repackLinkSource :: string

text \<open>
  What a run does to the outside is kept as a log of events: a sleep (milliseconds), a
  request (URL and its timeout in milliseconds), taking and giving back a slot of the
  semaphore.
\<close>

datatype event = Sleep nat | Get string nat | Acquire | Release

record parser =
  categories :: "(string \<times> string) list"
  max_concurrent :: nat
  games_data :: "game list"
  total_games_parsed :: nat
  log :: "event list"

text \<open>
  The network answers a request with the text of the page, or the request raises
  (timeout, connection error, error status): \<open>None\<close>. The answer may depend on the URL
  and on everything that happened before, that is on the position in the log.

  Tasks that the source runs concurrently (\<open>asyncio.gather\<close>, \<open>asyncio.as_completed\<close>)
  run here one after the other, in the order in which they are created. Every answer of
  the network is a parameter, so each real run, whatever its interleaving, is one choice
  of the network function; the order of the collected records is the one thing this
  fixes, and the source promises none.
\<close>

type_synonym network = "nat \<Rightarrow> string \<Rightarrow> string option"

definition init :: "nat \<Rightarrow> parser" where
  "init n =
     \<lparr>categories =
        [(''Action'', ''https://repack-games.com/category/action-games/''),
         (''Anime'', ''https://repack-games.com/category/anime-games/''),
         (''Adventure'', ''https://repack-games.com/category/adventure-games/''),
         (''Building'', ''https://repack-games.com/category/building-games/''),
         (''3D COMICS'', ''https://repack-games.com/category/3d-comics/''),
         (''EXPLORATION'', ''https://repack-games.com/category/exploration/''),
         (''EMULATOR GAMES'', ''https://repack-games.com/category/emulator-games/''),
         (''MULTIPLAYER'', ''https://repack-games.com/category/multiplayer-games/''),
         (''OPEN WORLD'', ''https://repack-games.com/category/open-world-game/''),
         (''VR-GAMES'', ''https://repack-games.com/category/vr-games/''),
         (''FIGHTING'', ''https://repack-games.com/category/fighting-games/''),
         (''NUDITY'', ''https://repack-games.com/category/nudity/''),
         (''HORROR'', ''https://repack-games.com/category/horror-games/''),
         (''RACING'', ''https://repack-games.com/category/racing-game/''),
         (''SHOOTER'', ''https://repack-games.com/category/shooting-games/''),
         (''RPG'', ''https://repack-games.com/category/rpg-pc-games/''),
         (''PUZZLE'', ''https://repack-games.com/category/puzzle/''),
         (''SPORT'', ''https://repack-games.com/category/sport-game/''),
         (''SURVIVAL'', ''https://repack-games.com/category/survival-games/''),
         (''SIMULATION'', ''https://repack-games.com/category/simulation-game/''),
         (''STRATEGY'', ''https://repack-games.com/category/strategy-games/''),
         (''SCI-FI'', ''https://repack-games.com/category/sci-fi-games/'')],
      max_concurrent = n, games_data = [], total_games_parsed = 0, log = []\<rparr>"

definition emit :: "event \<Rightarrow> parser \<Rightarrow> parser" where
  "emit e st = st\<lparr>log := log st @ [e]\<rparr>"

subsection \<open>\<open>get_page_content\<close>\<close>

text \<open>
  The loop \<open>for attempt in range(3)\<close>, inside \<open>async with self.semaphore\<close>. Each attempt
  sleeps 0.01 s and sends the request with a timeout of 12 s; a failed attempt 0 or 1
  sleeps 0.15 s and goes on, a failed attempt 2 returns \<open>None\<close>.
\<close>

fun attempts :: "network \<Rightarrow> string \<Rightarrow> nat list \<Rightarrow> parser \<Rightarrow> string option \<times> parser" where
  "attempts net url [] st = (None, st)"
| "attempts net url (attempt # rest) st =
     (let st1 = emit (Sleep 10) st;
          response = net (length (log st1)) url;
          st2 = emit (Get url 12000) st1
      in case response of
           Some text \<Rightarrow> (Some text, st2)
         | None \<Rightarrow>
             if attempt < 2 then attempts net url rest (emit (Sleep 150) st2)
             else (None, st2))"

definition get_page_content :: "network \<Rightarrow> string \<Rightarrow> parser \<Rightarrow> string option \<times> parser" where
  "get_page_content net url st =
     (case attempts net url [0, 1, 2] (emit Acquire st) of
        (content, st') \<Rightarrow> (content, emit Release st'))"

subsection \<open>Reading one page\<close>

definition is_404_page :: "lib \<Rightarrow> string option \<Rightarrow> bool" where
  "is_404_page L html_content =
     (case html_content of
        None \<Rightarrow> True
      | Some html \<Rightarrow>
          if html = [] then True
          else
            (case wrap_content (BeautifulSoup L html) of
               None \<Rightarrow> False
             | Some w \<Rightarrow>
                 (case article_btn w of
                    None \<Rightarrow> False
                  | Some text \<Rightarrow> str_in ''Error 404'' text)))"

definition size_patterns :: "pattern list" where
  "size_patterns = [Game_size, Size, Any_size]"

text \<open>\<open>re.sub(r'[^0-9.KMGTB+ ]', '', size)\<close> keeps the characters of the class.\<close>

definition clean_size :: "string \<Rightarrow> string" where
  "clean_size s = filter (\<lambda>c. c \<in> set ''0123456789.KMGTB+ '') s"

fun size_loop :: "lib \<Rightarrow> pattern list \<Rightarrow> string \<Rightarrow> string" where
  "size_loop L [] info_text = ''Unknown''"
| "size_loop L (p # ps) info_text =
     (case search L p info_text of
        None \<Rightarrow> size_loop L ps info_text
      | Some g \<Rightarrow>
          (let sz = strip (clean_size (strip g))
           in if sz \<noteq> [] then sz else size_loop L ps info_text))"

definition parse_file_size :: "lib \<Rightarrow> string option \<Rightarrow> string" where
  "parse_file_size L info =
     (case info of
        None \<Rightarrow> ''Unknown''
      | Some info_text \<Rightarrow> size_loop L size_patterns info_text)"

subsection \<open>\<open>parse_date_info\<close>\<close>

definition date_patterns :: "pattern list" where
  "date_patterns = [Date_on, Date_colon, Date_after, Any_date]"

text \<open>The formats \<open>%d-%m-%Y\<close>, \<open>%d/%m/%Y\<close>, \<open>%m/%d/%Y\<close>, \<open>%d-%m-%y\<close>, \<open>%d/%m/%y\<close>.\<close>

definition date_formats :: "directive list list" where
  "date_formats =
     [[Dir_d, Lit (CHR ''-''), Dir_m, Lit (CHR ''-''), Dir_Y],
      [Dir_d, Lit (CHR ''/''), Dir_m, Lit (CHR ''/''), Dir_Y],
      [Dir_m, Lit (CHR ''/''), Dir_d, Lit (CHR ''/''), Dir_Y],
      [Dir_d, Lit (CHR ''-''), Dir_m, Lit (CHR ''-''), Dir_y],
      [Dir_d, Lit (CHR ''/''), Dir_m, Lit (CHR ''/''), Dir_y]]"

text \<open>The correction of short years after \<open>strptime\<close>.\<close>

definition fix_year :: "datetime \<Rightarrow> error + datetime" where
  "fix_year parsed_date =
     (if year parsed_date < 30
      then replace_date parsed_date (year parsed_date + 2000) (month parsed_date) (day parsed_date)
      else if year parsed_date < 100
      then (if year parsed_date < 50
            then replace_date parsed_date (year parsed_date + 2000) (month parsed_date)
                   (day parsed_date)
            else replace_date parsed_date (year parsed_date + 1900) (month parsed_date)
                   (day parsed_date))
      else Inr parsed_date)"

text \<open>
  The loop over the formats: a \<open>ValueError\<close> of \<open>strptime\<close> or of \<open>replace\<close> goes on
  with the next format, the first format that parses ends the loop.
\<close>

fun format_loop :: "string \<Rightarrow> directive list list \<Rightarrow> string option" where
  "format_loop date_str [] = None"
| "format_loop date_str (date_format # rest) =
     (case strptime date_str date_format of
        Inl e \<Rightarrow> format_loop date_str rest
      | Inr parsed_date \<Rightarrow>
          (case fix_year parsed_date of
             Inl e \<Rightarrow> format_loop date_str rest
           | Inr d \<Rightarrow> Some (isoformat d @ ''.000Z'')))"

fun date_loop :: "lib \<Rightarrow> pattern list \<Rightarrow> string \<Rightarrow> string option" where
  "date_loop L [] info_text = None"
| "date_loop L (p # ps) info_text =
     (case search L p info_text of
        None \<Rightarrow> date_loop L ps info_text
      | Some date_str \<Rightarrow>
          (case format_loop date_str date_formats of
             Some upload_date \<Rightarrow> Some upload_date
           | None \<Rightarrow> date_loop L ps info_text))"

text \<open>The first half of \<open>parse_date_info\<close>: a date written in the \<open>game-info\<close> block.\<close>

definition date_from_game_info :: "lib \<Rightarrow> soup \<Rightarrow> string option" where
  "date_from_game_info L sp =
     (case game_info sp of
        None \<Rightarrow> None
      | Some info_text \<Rightarrow> date_loop L date_patterns info_text)"

definition relative_patterns :: "time_unit list" where
  "relative_patterns = [Year, Month, Week, Day, Hour, Minute, Second]"

text \<open>The \<open>timedelta\<close> of the branch chosen by the unit, in seconds; \<open>None\<close> is \<open>continue\<close>.\<close>

definition delta_seconds :: "string \<Rightarrow> nat \<Rightarrow> int option" where
  "delta_seconds unit v =
     (if str_in ''year'' unit then Some (int v * 365 * 86400)
      else if str_in ''month'' unit then Some (int v * 30 * 86400)
      else if str_in ''week'' unit then Some (int v * 7 * 86400)
      else if str_in ''day'' unit then Some (int v * 86400)
      else if str_in ''hour'' unit then Some (int v * 3600)
      else if str_in ''minute'' unit then Some (int v * 60)
      else if str_in ''second'' unit then Some (int v)
      else None)"

fun relative_loop :: "lib \<Rightarrow> time_unit list \<Rightarrow> string \<Rightarrow> error + string option" where
  "relative_loop L [] time_text = Inr None"
| "relative_loop L (p # ps) time_text =
     (case search_ago L p time_text of
        None \<Rightarrow> relative_loop L ps time_text
      | Some (g1, g2) \<Rightarrow>
          (case py_int g1 of
             Inl e \<Rightarrow> Inl e
           | Inr v \<Rightarrow>
               (case delta_seconds (lower g2) v of
                  None \<Rightarrow> relative_loop L ps time_text
                | Some secs \<Rightarrow>
                    (case minus_seconds L (now L) secs of
                       Inl e \<Rightarrow> Inl e
                     | Inr calculated_date \<Rightarrow> Inr (Some (isoformat calculated_date @ ''.000Z''))))))"

text \<open>The second half: a relative time in the \<open>time-article\<close> block.\<close>

definition date_from_time_article :: "lib \<Rightarrow> soup \<Rightarrow> error + string option" where
  "date_from_time_article L sp =
     (case time_article sp of
        None \<Rightarrow> Inr None
      | Some t \<Rightarrow> relative_loop L relative_patterns (strip t))"

definition parse_date_info :: "lib \<Rightarrow> soup \<Rightarrow> error + string option" where
  "parse_date_info L sp =
     (let upload_date = date_from_game_info L sp
      in if upload_date = None \<or> upload_date = Some []
         then date_from_time_article L sp
         else Inr upload_date)"

subsection \<open>Links\<close>

text \<open>
  The loop of \<open>extract_download_links\<close>: the first link under a \<open>TORRENT\<close> heading is
  skipped, a link is added when it has a non-empty \<open>href\<close> that is not in the list yet.
\<close>

fun download_loop :: "button list \<Rightarrow> bool \<Rightarrow> string list \<Rightarrow> string list" where
  "download_loop [] is_torrent_section download_links = download_links"
| "download_loop (b # bs) is_torrent_section download_links =
     (if str_in ''TORRENT'' (context_text b) \<and> \<not> is_torrent_section
      then download_loop bs True download_links
      else
        (case href b of
           None \<Rightarrow> download_loop bs False download_links
         | Some h \<Rightarrow>
             if h \<noteq> [] \<and> h \<notin> set download_links
             then download_loop bs False (download_links @ [h])
             else download_loop bs False download_links))"

definition extract_download_links :: "soup \<Rightarrow> string list" where
  "extract_download_links sp = download_loop (gp_download_buttons sp @ enjoy_css sp) False []"

definition is_game_link :: "string \<Rightarrow> bool" where
  "is_game_link h =
     (startswith h ''https://repack-games.com/'' \<and> \<not> str_in ''/category/'' h
      \<and> \<not> str_in ''/author/'' h)"

text \<open>The links of a list of articles whose title (or first) link is a game link.\<close>

definition titled_links :: "string option list \<Rightarrow> string list" where
  "titled_links articles =
     concat (map (\<lambda>a. case a of None \<Rightarrow> [] | Some h \<Rightarrow> (if is_game_link h then [h] else []))
                 articles)"

text \<open>The third way: of every article the first link that is a game link without \<open>/?p=\<close>.\<close>

definition first_links :: "string list list \<Rightarrow> string list" where
  "first_links articles =
     concat (map (\<lambda>links. case find (\<lambda>h. is_game_link h \<and> \<not> str_in ''/?p='' h) links of
                             None \<Rightarrow> [] | Some h \<Rightarrow> [h])
                 articles)"

definition extract_game_links_from_category :: "soup \<Rightarrow> string list" where
  "extract_game_links_from_category sp =
     (case wrap_content sp of
        None \<Rightarrow> []
      | Some w \<Rightarrow>
          (let game_links1 =
                 (case articles_content w of None \<Rightarrow> [] | Some articles \<Rightarrow> titled_links articles);
               game_links2 =
                 (if game_links1 = []
                  then (case modern_articles w of None \<Rightarrow> [] | Some articles \<Rightarrow> titled_links articles)
                  else game_links1)
           in if game_links2 = [] then first_links (all_articles w) else game_links2))"

definition get_total_pages_from_pagination :: "lib \<Rightarrow> soup \<Rightarrow> error + nat option" where
  "get_total_pages_from_pagination L sp =
     (case pages sp of
        None \<Rightarrow> Inr None
      | Some text \<Rightarrow>
          (case search L Page_of text of
             None \<Rightarrow> Inr None
           | Some g \<Rightarrow> (case py_int g of Inl e \<Rightarrow> Inl e | Inr n \<Rightarrow> Inr (Some n))))"

subsection \<open>One game, one listing page\<close>

text \<open>
  \<open>parse_game_info\<close>: whatever is raised inside is caught and turned into \<open>None\<close>.
\<close>

definition parse_game_info :: "lib \<Rightarrow> network \<Rightarrow> string \<Rightarrow> parser \<Rightarrow> game option \<times> parser" where
  "parse_game_info L net game_url st =
     (case get_page_content net game_url st of
        (html_content, st1) \<Rightarrow>
          (case html_content of
             None \<Rightarrow> (None, st1)
           | Some html \<Rightarrow>
               if html = [] then (None, st1)
               else
                 (let sp = BeautifulSoup L html;
                      title = (case article_title sp of
                                 Some t \<Rightarrow> strip t
                               | None \<Rightarrow> ''Unknown Title'');
                      file_size = parse_file_size L (game_info sp)
                  in case parse_date_info L sp of
                       Inl e \<Rightarrow> (None, st1)
                     | Inr upload_date \<Rightarrow>
                         (let download_links = extract_download_links sp
                          in if download_links = [] then (None, st1)
                             else
                               (Some \<lparr>title = title, uris = download_links,
                                      fileSize = file_size, uploadDate = upload_date,
                                      repackLinkSource = game_url\<rparr>,
                                st1\<lparr>total_games_parsed := total_games_parsed st1 + 1\<rparr>)))))"

text \<open>\<open>asyncio.gather\<close> over \<open>parse_game_info\<close> for the links of one page.\<close>

fun gather_games :: "lib \<Rightarrow> network \<Rightarrow> string list \<Rightarrow> parser \<Rightarrow> game option list \<times> parser" where
  "gather_games L net [] st = ([], st)"
| "gather_games L net (game_url # rest) st =
     (case parse_game_info L net game_url st of
        (result, st1) \<Rightarrow>
          (case gather_games L net rest st1 of
             (results, st2) \<Rightarrow> (result # results, st2)))"

text \<open>The filter \<open>isinstance(result, dict) and result is not None\<close>.\<close>

definition valid_games :: "game option list \<Rightarrow> game list" where
  "valid_games game_results =
     concat (map (\<lambda>r. case r of None \<Rightarrow> [] | Some g \<Rightarrow> [g]) game_results)"

definition page_url :: "string \<Rightarrow> nat \<Rightarrow> string" where
  "page_url category_url page =
     (if page = 1 then category_url else category_url @ ''page/'' @ str_nat page @ ''/'')"

definition parse_category_page_and_games ::
  "lib \<Rightarrow> network \<Rightarrow> string \<Rightarrow> nat \<Rightarrow> parser \<Rightarrow> game list \<times> parser" where
  "parse_category_page_and_games L net category_url page st =
     (case get_page_content net (page_url category_url page) st of
        (html_content, st1) \<Rightarrow>
          if is_404_page L html_content then ([], st1)
          else
            (let game_links =
                   extract_game_links_from_category
                     (BeautifulSoup L (case html_content of Some html \<Rightarrow> html | None \<Rightarrow> []))
             in if game_links = [] then ([], st1)
                else
                  (case gather_games L net game_links st1 of
                     (game_results, st2) \<Rightarrow> (valid_games game_results, st2))))"

subsection \<open>One category\<close>

text \<open>
  The pages 2 to \<open>max_pages\<close>: every one of them is turned into a task before any result
  is awaited, and the results are added as the tasks complete.
\<close>

fun pages_loop ::
  "lib \<Rightarrow> network \<Rightarrow> string \<Rightarrow> nat list \<Rightarrow> game list \<Rightarrow> parser \<Rightarrow> game list \<times> parser" where
  "pages_loop L net category_url [] all_games st = (all_games, st)"
| "pages_loop L net category_url (page # rest) all_games st =
     (case parse_category_page_and_games L net category_url page st of
        (result, st1) \<Rightarrow> pages_loop L net category_url rest (all_games @ result) st1)"

definition parse_category_with_pagination ::
  "lib \<Rightarrow> progress \<Rightarrow> network \<Rightarrow> string \<Rightarrow> string \<Rightarrow> parser \<Rightarrow> (error + game list) \<times> parser" where
  "parse_category_with_pagination L P net category_name category_url st =
     (case add_task P (''Processing category: '' @ category_name) of
        Inl e \<Rightarrow> (Inl e, st)
      | Inr task_id \<Rightarrow>
          (case get_page_content net category_url st of
             (html_content, st1) \<Rightarrow>
               if html_content = None \<or> html_content = Some []
               then
                 (case update P task_id (''[red]Failed category: '' @ category_name @ ''[/red]'') of
                    Some e \<Rightarrow> (Inl e, st1)
                  | None \<Rightarrow> (Inr [], st1))
               else
                 (let sp = BeautifulSoup L (case html_content of Some html \<Rightarrow> html | None \<Rightarrow> [])
                  in case get_total_pages_from_pagination L sp of
                       Inl e \<Rightarrow> (Inl e, st1)
                     | Inr total_pages \<Rightarrow>
                         (let max_pages =
                                (case total_pages of
                                   None \<Rightarrow> 999
                                 | Some n \<Rightarrow> (if n \<noteq> 0 then n else 999));
                              games_from_page = extract_game_links_from_category sp
                          in case gather_games L net games_from_page st1 of
                               (game_results, st2) \<Rightarrow>
                                 (let all_games = valid_games game_results
                                  in if max_pages > 1
                                     then
                                       (case pages_loop L net category_url [2..<max_pages + 1]
                                               all_games st2 of
                                          (games, st3) \<Rightarrow> (Inr games, st3))
                                     else (Inr all_games, st2))))))"

subsection \<open>All categories\<close>

text \<open>\<open>asyncio.gather(*tasks, return_exceptions=True)\<close> over the categories.\<close>

fun gather_categories ::
  "lib \<Rightarrow> progress \<Rightarrow> network \<Rightarrow> (string \<times> string) list \<Rightarrow> parser
     \<Rightarrow> (error + game list) list \<times> parser" where
  "gather_categories L P net [] st = ([], st)"
| "gather_categories L P net ((category_name, category_url) # rest) st =
     (case parse_category_with_pagination L P net category_name category_url st of
        (result, st1) \<Rightarrow>
          (case gather_categories L P net rest st1 of
             (results, st2) \<Rightarrow> (result # results, st2)))"

text \<open>
  The loop over the results: a list extends \<open>games_data\<close>, an exception is printed.
\<close>

fun collect :: "(error + game list) list \<Rightarrow> game list \<Rightarrow> game list" where
  "collect [] data = data"
| "collect (Inr result # rest) data = collect rest (data @ result)"
| "collect (Inl e # rest) data = collect rest data"

definition parse_all_categories :: "lib \<Rightarrow> progress \<Rightarrow> network \<Rightarrow> parser \<Rightarrow> parser" where
  "parse_all_categories L P net st =
     (case gather_categories L P net (categories st) st of
        (results, st1) \<Rightarrow> st1\<lparr>games_data := collect results (games_data st1)\<rparr>)"

text \<open>\<open>save_to_json\<close> writes \<open>games_data\<close> under the key \<open>downloads\<close>.\<close>

definition save_to_json :: "parser \<Rightarrow> game list" where
  "save_to_json st = games_data st"

definition run :: "lib \<Rightarrow> progress \<Rightarrow> network \<Rightarrow> parser \<Rightarrow> game list" where
  "run L P net st = save_to_json (parse_all_categories L P net st)"

section \<open>AnkerGames: \<open>ankergames.py\<close>\<close>

subsection \<open>Month arithmetic\<close>

definition days_in_month :: "int \<Rightarrow> int \<Rightarrow> error + int" where
  "days_in_month y m =
     (case (if m = 12 then datetime_new (y + 1) 1 1 0 0 0 0 utc
            else datetime_new y (m + 1) 1 0 0 0 0 utc) of
        Inl e \<Rightarrow> Inl e
      | Inr next_month \<Rightarrow>
          (case datetime_new y m 1 0 0 0 0 utc of
             Inl e \<Rightarrow> Inl e
           | Inr this_month \<Rightarrow> Inr (sub_days next_month this_month)))"

definition subtract_months :: "datetime \<Rightarrow> int \<Rightarrow> error + datetime" where
  "subtract_months dt months =
     (let month_index = (year dt * 12 + (month dt - 1)) - months;
          new_year = month_index div 12;
          new_month = month_index mod 12 + 1
      in case days_in_month new_year new_month of
           Inl e \<Rightarrow> Inl e
         | Inr max_day \<Rightarrow> replace_date dt new_year new_month (min (day dt) max_day))"

subsection \<open>Timestamps\<close>

text \<open>
  \<open>to_iso_utc\<close>: a naive datetime is taken as UTC, any other is converted to UTC
  (\<open>astimezone\<close>, which moves the fields by the offset), then printed.
\<close>

definition to_iso_utc :: "lib \<Rightarrow> datetime \<Rightarrow> error + string" where
  "to_iso_utc L dt =
     (case tzinfo dt of
        None \<Rightarrow> Inr (strftime_iso_000Z (dt\<lparr>tzinfo := utc\<rparr>))
      | Some off \<Rightarrow>
          if off = 0 then Inr (strftime_iso_000Z (dt\<lparr>tzinfo := utc\<rparr>))
          else
            (case minus_seconds L dt off of
               Inl e \<Rightarrow> Inl e
             | Inr d \<Rightarrow> Inr (strftime_iso_000Z (d\<lparr>tzinfo := utc\<rparr>))))"

subsection \<open>One game page\<close>

text \<open>
  A page of the browser is seen through what the extraction functions
  \<open>extract_title\<close>, \<open>extract_file_size\<close> and \<open>extract_download_link\<close> return on it, and
  through its \<open>content\<close>. \<open>goto\<close> opens the page of a URL or raises.
\<close>

record page =
  extract_title :: string
  extract_file_size :: "string option"
  extract_download_link :: "string option"
  content :: string

type_synonym browser = "string \<Rightarrow> error + page"

record DownloadItem =
  di_title :: string
  di_uris :: "string list"
  di_uploadDate :: string
  di_fileSize :: string
  di_repackLinkSource :: string

text \<open>
  \<open>extract_last_updated_iso\<close>: first \<open>Last Updated - N months ago\<close>, then
  \<open>Published on, N months ago\<close>, counted back from \<open>datetime.now(timezone.utc)\<close>.
\<close>

definition months_ago_iso :: "lib \<Rightarrow> datetime \<Rightarrow> string \<Rightarrow> error + string option" where
  "months_ago_iso L now_utc g =
     (case py_int g of
        Inl e \<Rightarrow> Inl e
      | Inr months \<Rightarrow>
          (case subtract_months now_utc (int months) of
             Inl e \<Rightarrow> Inl e
           | Inr dt \<Rightarrow> (case to_iso_utc L dt of Inl e \<Rightarrow> Inl e | Inr s \<Rightarrow> Inr (Some s))))"

definition extract_last_updated_iso :: "lib \<Rightarrow> datetime \<Rightarrow> page \<Rightarrow> error + string option" where
  "extract_last_updated_iso L now_utc pg =
     (let html = content pg
      in case search L Last_updated (lower html) of
           Some g \<Rightarrow> months_ago_iso L now_utc g
         | None \<Rightarrow>
             (case search L Published_on (lower html) of
                Some g \<Rightarrow> months_ago_iso L now_utc g
              | None \<Rightarrow> Inr None))"

definition scrape_game :: "lib \<Rightarrow> datetime \<Rightarrow> browser \<Rightarrow> string \<Rightarrow> error + DownloadItem" where
  "scrape_game L now_utc goto game_url =
     (case goto game_url of
        Inl e \<Rightarrow> Inl e
      | Inr pg \<Rightarrow>
          (case extract_last_updated_iso L now_utc pg of
             Inl e \<Rightarrow> Inl e
           | Inr upload_iso \<Rightarrow>
               Inr \<lparr>di_title = extract_title pg,
                    di_uris = (case extract_download_link pg of
                                 None \<Rightarrow> []
                               | Some download_uri \<Rightarrow>
                                   (if download_uri \<noteq> [] then [download_uri] else [])),
                    di_uploadDate = (case upload_iso of None \<Rightarrow> [] | Some u \<Rightarrow> u),
                    di_fileSize = (case extract_file_size pg of None \<Rightarrow> [] | Some f \<Rightarrow> f),
                    di_repackLinkSource = game_url\<rparr>))"

subsection \<open>The list of games and the main loop\<close>

definition BASE_URL :: string where
  "BASE_URL = ''https://ankergames.net''"

text \<open>
  The loop of \<open>get_game_links\<close> over the \<open>href\<close> attributes of the anchors of the grid.
\<close>

fun links_loop :: "string option list \<Rightarrow> string list \<Rightarrow> string list" where
  "links_loop [] links = links"
| "links_loop (a # rest) links =
     (case a of
        None \<Rightarrow> links_loop rest links
      | Some h0 \<Rightarrow>
          if h0 = [] then links_loop rest links
          else
            (let h = (if startswith h0 ''/'' then BASE_URL @ h0 else h0)
             in if startswith h (BASE_URL @ ''/game/'') \<and> h \<notin> set links
                then links_loop rest (links @ [h])
                else links_loop rest links))"

definition get_game_links :: "string option list \<Rightarrow> string list" where
  "get_game_links anchors = links_loop anchors []"

text \<open>\<open>links[:limit]\<close>, also for a negative limit.\<close>

definition slice_to :: "int \<Rightarrow> 'a list \<Rightarrow> 'a list" where
  "slice_to limit xs =
     (if 0 \<le> limit then take (nat limit) xs else take (length xs - nat (- limit)) xs)"

text \<open>
  The loop of \<open>main\<close>: an item is kept, a game whose scraping raises is reported and
  skipped. The result is what is written under the key \<open>downloads\<close>.
\<close>

fun scrape_loop :: "lib \<Rightarrow> datetime \<Rightarrow> browser \<Rightarrow> string list \<Rightarrow> DownloadItem list" where
  "scrape_loop L now_utc goto [] = []"
| "scrape_loop L now_utc goto (url # rest) =
     (case scrape_game L now_utc goto url of
        Inr item \<Rightarrow> item # scrape_loop L now_utc goto rest
      | Inl e \<Rightarrow> scrape_loop L now_utc goto rest)"

definition main ::
  "lib \<Rightarrow> datetime \<Rightarrow> browser \<Rightarrow> string option list \<Rightarrow> int option \<Rightarrow> DownloadItem list" where
  "main L now_utc goto anchors limit =
     (let links = get_game_links anchors;
          links' = (case limit of None \<Rightarrow> links | Some n \<Rightarrow> slice_to n links)
      in scrape_loop L now_utc goto links')"

section \<open>Vocabulary of the properties\<close>

text \<open>
  The events of one call of \<open>get_page_content\<close> that makes \<open>k\<close> attempts: the slot is
  taken, every attempt is a sleep of 10 ms and a request with a timeout of 12 s, every
  attempt but the first comes after a sleep of 150 ms, and the slot is given back.
\<close>

definition fetch_trace :: "string \<Rightarrow> nat \<Rightarrow> event list" where
  "fetch_trace url k =
     [Acquire]
     @ concat (map (\<lambda>i. (if 0 < i then [Sleep 150] else []) @ [Sleep 10, Get url 12000]) [0..<k])
     @ [Release]"

text \<open>
  A step of the crawl only adds events to the log and counts parsed games: \<open>advances st st'\<close>.
\<close>

definition advances :: "parser \<Rightarrow> parser \<Rightarrow> bool" where
  "advances st st' =
     (\<exists>evs n. st' = st\<lparr>total_games_parsed := total_games_parsed st + n, log := log st @ evs\<rparr>)"

text \<open>The records of a category's result: none when the category raised.\<close>

definition records_of :: "error + game list \<Rightarrow> game list" where
  "records_of result = (case result of Inr games \<Rightarrow> games | Inl e \<Rightarrow> [])"

section \<open>Example sites\<close>

text \<open>
  A small catalogue to run the model on. The listing of both categories links the same
  game and carries the marker \<open>Page 1 of 1\<close>; the listing without a marker is followed by
  pages that all are the site's not-found page.
\<close>

definition no_wrap :: wrap where
  "no_wrap = \<lparr>article_btn = None, articles_content = None, modern_articles = None,
              all_articles = []\<rparr>"

definition no_soup :: soup where
  "no_soup = \<lparr>wrap_content = None, game_info = None, time_article = None,
              article_title = None, gp_download_buttons = [], enjoy_css = [], pages = None\<rparr>"

definition game_x :: string where
  "game_x = ''https://repack-games.com/game-x/''"

definition listing_soup :: soup where
  "listing_soup =
     no_soup\<lparr>wrap_content := Some (no_wrap\<lparr>articles_content := Some [Some game_x]\<rparr>),
             pages := Some ''Page 1 of 1''\<rparr>"

definition unmarked_soup :: soup where
  "unmarked_soup = listing_soup\<lparr>pages := None\<rparr>"

definition not_found_soup :: soup where
  "not_found_soup = no_soup\<lparr>wrap_content := Some (no_wrap\<lparr>article_btn := Some ''Error 404''\<rparr>)\<rparr>"

definition game_soup :: soup where
  "game_soup =
     no_soup\<lparr>game_info := Some ''Game size: 40.0 GB PUBLISHED ON - 17-05-2024'',
             article_title := Some '' Game X '',
             gp_download_buttons := [\<lparr>context_text = ''DOWNLOAD'', href = Some ''https://host/x''\<rparr>]\<rparr>"

definition bare_game_soup :: soup where
  "bare_game_soup = no_soup\<lparr>article_title := Some ''Game Y''\<rparr>"

definition noon :: datetime where
  "noon = \<lparr>year = 2026, month = 3, day = 31, hour = 12, minute = 0, second = 0,
           microsecond = 0, tzinfo = None\<rparr>"

definition demo_lib :: lib where
  "demo_lib =
     \<lparr>BeautifulSoup =
        (\<lambda>html. if html = ''listing'' then listing_soup
                else if html = ''unmarked'' then unmarked_soup
                else if html = ''game'' then game_soup
                else if html = ''bare'' then bare_game_soup
                else if html = ''404'' then not_found_soup
                else no_soup),
      search =
        (\<lambda>p text.
           if p = Page_of \<and> text = ''Page 1 of 1'' then Some ''1''
           else if p = Game_size \<and> text = ''Game size: 40.0 GB PUBLISHED ON - 17-05-2024''
           then Some ''40.0 GB''
           else if p = Date_on \<and> text = ''Game size: 40.0 GB PUBLISHED ON - 17-05-2024''
           then Some ''17-05-2024''
           else if p = Last_updated \<and> text = ''last updated - 1 months ago'' then Some ''1''
           else None),
      search_ago = (\<lambda>u text. None),
      now = noon,
      minus_seconds = (\<lambda>dt n. Inl OverflowError)\<rparr>"

definition quiet :: progress where
  "quiet = \<lparr>add_task = (\<lambda>description. Inr 0), update = (\<lambda>task_id description. None)\<rparr>"

definition category_a :: string where
  "category_a = ''https://repack-games.com/category/a/''"

definition category_b :: string where
  "category_b = ''https://repack-games.com/category/b/''"

definition demo_net :: network where
  "demo_net =
     (\<lambda>n url. if url = category_a \<or> url = category_b then Some ''listing''
              else if url = game_x then Some ''game''
              else None)"

definition demo_parser :: parser where
  "demo_parser = (init 160)\<lparr>categories := [(''A'', category_a), (''B'', category_b)]\<rparr>"

text \<open>A category of four pages without a marker; every other URL is the not-found page.\<close>

definition unmarked_net :: network where
  "unmarked_net =
     (\<lambda>n url. if url \<in> set (map (page_url category_a) [1, 2, 3, 4]) then Some ''unmarked''
              else if url = game_x then Some ''game''
              else Some ''404'')"

definition dead_net :: network where
  "dead_net = (\<lambda>n url. None)"

text \<open>An AnkerGames page without a size and without a download link, and a full one.\<close>

definition bare_page :: page where
  "bare_page = \<lparr>extract_title = ''Game Y'', extract_file_size = None,
                extract_download_link = None, content = []\<rparr>"

definition dated_page :: page where
  "dated_page = \<lparr>extract_title = ''Game Z'', extract_file_size = Some ''40.0 GB'',
                 extract_download_link = Some ''https://host/z'',
                 content = ''Last Updated - 1 months ago''\<rparr>"

definition demo_goto :: browser where
  "demo_goto =
     (\<lambda>url. if url = ''https://ankergames.net/game/y'' then Inr bare_page
            else if url = ''https://ankergames.net/game/z'' then Inr dated_page
            else Inl (Fault ''navigation''))"

definition noon_utc :: datetime where
  "noon_utc = noon\<lparr>tzinfo := utc\<rparr>"

section \<open>Properties\<close>

subsection \<open>The fetcher\<close>

lemma emit_log [simp]: "log (emit e st) = log st @ [e]"
  by (simp add: emit_def)

lemma emit_frame [simp]:
  "games_data (emit e st) = games_data st"
  "categories (emit e st) = categories st"
  "max_concurrent (emit e st) = max_concurrent st"
  "total_games_parsed (emit e st) = total_games_parsed st"
  by (simp_all add: emit_def)

lemma emit_eq: "emit e st = st\<lparr>log := log st @ [e]\<rparr>"
  by (simp add: emit_def)

lemma upt_small: "[0..<1] = [0]" "[0..<2] = [0, 1]" "[0..<3] = [0, 1, 2]"
  by code_simp+

lemma fetch_trace_simps:
  "fetch_trace url 1 = [Acquire, Sleep 10, Get url 12000, Release]"
  "fetch_trace url (Suc 0) = [Acquire, Sleep 10, Get url 12000, Release]"
  "fetch_trace url 2 =
     [Acquire, Sleep 10, Get url 12000, Sleep 150, Sleep 10, Get url 12000, Release]"
  "fetch_trace url 3 =
     [Acquire, Sleep 10, Get url 12000, Sleep 150, Sleep 10, Get url 12000,
      Sleep 150, Sleep 10, Get url 12000, Release]"
  by (simp_all add: fetch_trace_def upt_small)

text \<open>The shapes of a fetch: success at the first, second or third attempt, or failure.\<close>

lemma get_page_content_shape:
  "\<exists>k. 1 \<le> k \<and> k \<le> 3 \<and>
       snd (get_page_content net url st) = st\<lparr>log := log st @ fetch_trace url k\<rparr> \<and>
       (fst (get_page_content net url st) = None \<longrightarrow> k = 3)"
proof -
  let ?r = "get_page_content net url st"
  have "(snd ?r = st\<lparr>log := log st @ fetch_trace url 1\<rparr> \<and> fst ?r \<noteq> None) \<or>
        (snd ?r = st\<lparr>log := log st @ fetch_trace url 2\<rparr> \<and> fst ?r \<noteq> None) \<or>
        snd ?r = st\<lparr>log := log st @ fetch_trace url 3\<rparr>"
    by (auto simp: get_page_content_def Let_def emit_def fetch_trace_simps split: option.splits)
  then show ?thesis
    by (elim disjE) (rule exI[of _ 1], simp, rule exI[of _ 2], simp, rule exI[of _ 3], simp)
qed

lemma get_page_content_fails:
  assumes "\<forall>n. net n url = None"
  shows "get_page_content net url st = (None, st\<lparr>log := log st @ fetch_trace url 3\<rparr>)"
  using assms
  by (simp add: get_page_content_def Let_def emit_def fetch_trace_simps)

lemma get_page_content_Some:
  "fst (get_page_content net url st) = Some text \<Longrightarrow> \<exists>n. net n url = Some text"
  by (auto simp: get_page_content_def Let_def split: option.splits if_splits)

section \<open>Properties\<close>

subsection \<open>A crawl only adds to the log\<close>

lemma advances_refl [simp]: "advances st st"
  unfolding advances_def by (rule exI[of _ "[]"], rule exI[of _ 0]) simp

lemma advances_trans: "advances a b \<Longrightarrow> advances b c \<Longrightarrow> advances a c"
proof -
  assume "advances a b" "advances b c"
  then obtain evs n evs' n' where
    b: "b = a\<lparr>total_games_parsed := total_games_parsed a + n, log := log a @ evs\<rparr>" and
    c: "c = b\<lparr>total_games_parsed := total_games_parsed b + n', log := log b @ evs'\<rparr>"
    unfolding advances_def by blast
  show ?thesis
    unfolding advances_def
    by (rule exI[of _ "evs @ evs'"], rule exI[of _ "n + n'"]) (simp add: b c)
qed

lemma advances_frame:
  assumes "advances st st'"
  shows "games_data st' = games_data st" "categories st' = categories st"
    "max_concurrent st' = max_concurrent st" "set (log st) \<subseteq> set (log st')"
  using assms by (auto simp: advances_def)

lemma advances_get_page_content: "advances st (snd (get_page_content net url st))"
proof -
  from get_page_content_shape[of net url st] obtain k where
    "snd (get_page_content net url st) = st\<lparr>log := log st @ fetch_trace url k\<rparr>" by blast
  then show ?thesis
    unfolding advances_def by (intro exI[of _ "fetch_trace url k"] exI[of _ 0]) simp
qed

lemma get_page_content_requests:
  "Get url 12000 \<in> set (log (snd (get_page_content net url st)))"
proof -
  from get_page_content_shape[of net url st] obtain k where k: "1 \<le> k"
    "snd (get_page_content net url st) = st\<lparr>log := log st @ fetch_trace url k\<rparr>" by blast
  from k(1) have "0 \<in> set [0..<k]" by simp
  then have "Get url 12000 \<in> set (fetch_trace url k)"
    unfolding fetch_trace_def by (auto intro!: bexI[of _ 0])
  with k(2) show ?thesis by simp
qed

lemma advances_parse_game_info: "advances st (snd (parse_game_info L net u st))"
proof -
  obtain c st1 where g: "get_page_content net u st = (c, st1)" by (cases "get_page_content net u st")
  then have a: "advances st st1" using advances_get_page_content[of st net u] by simp
  have b: "advances st1 (st1\<lparr>total_games_parsed := total_games_parsed st1 + 1\<rparr>)"
    unfolding advances_def by (intro exI[of _ "[]"] exI[of _ 1]) simp
  have "snd (parse_game_info L net u st) = st1 \<or>
        snd (parse_game_info L net u st) = st1\<lparr>total_games_parsed := total_games_parsed st1 + 1\<rparr>"
    by (simp add: parse_game_info_def g Let_def split: option.splits sum.splits)
  with a b show ?thesis by (auto intro: advances_trans)
qed

lemma advances_gather_games: "advances st (snd (gather_games L net us st))"
proof (induction us arbitrary: st)
  case Nil
  then show ?case by simp
next
  case (Cons u us)
  obtain r st1 where p: "parse_game_info L net u st = (r, st1)" by (cases "parse_game_info L net u st")
  obtain rs st2 where g: "gather_games L net us st1 = (rs, st2)" by (cases "gather_games L net us st1")
  from p have "advances st st1" using advances_parse_game_info[of st L net u] by simp
  moreover from g have "advances st1 st2" using Cons.IH[of st1] by simp
  ultimately show ?case by (simp add: p g advances_trans)
qed

lemma parse_category_page_and_games_state:
  assumes "get_page_content net (page_url url page) st = (c, st1)"
  shows "snd (parse_category_page_and_games L net url page st) = st1 \<or>
         (\<exists>links. snd (parse_category_page_and_games L net url page st)
                    = snd (gather_games L net links st1))"
proof -
  let ?links = "extract_game_links_from_category
      (BeautifulSoup L (case c of Some html \<Rightarrow> html | None \<Rightarrow> []))"
  obtain rs st2 where gg: "gather_games L net ?links st1 = (rs, st2)"
    by (cases "gather_games L net ?links st1")
  have "snd (parse_category_page_and_games L net url page st) = st1 \<or>
        snd (parse_category_page_and_games L net url page st) = snd (gather_games L net ?links st1)"
    by (simp add: parse_category_page_and_games_def assms Let_def gg)
  then show ?thesis by blast
qed

lemma advances_parse_category_page_and_games:
  "advances st (snd (parse_category_page_and_games L net url page st))"
proof -
  obtain c st1 where g: "get_page_content net (page_url url page) st = (c, st1)"
    by (cases "get_page_content net (page_url url page) st")
  then have a: "advances st st1" using advances_get_page_content[of st net "page_url url page"] by simp
  from parse_category_page_and_games_state[OF g, of L]
  show ?thesis
  proof
    assume "snd (parse_category_page_and_games L net url page st) = st1"
    with a show ?thesis by simp
  next
    assume "\<exists>links. snd (parse_category_page_and_games L net url page st)
                    = snd (gather_games L net links st1)"
    then obtain links where "snd (parse_category_page_and_games L net url page st)
                    = snd (gather_games L net links st1)" ..
    with a advances_gather_games[of st1 L net links] show ?thesis
      by (simp add: advances_trans)
  qed
qed

lemma page_requested:
  "Get (page_url url page) 12000 \<in> set (log (snd (parse_category_page_and_games L net url page st)))"
proof -
  obtain c st1 where g: "get_page_content net (page_url url page) st = (c, st1)"
    by (cases "get_page_content net (page_url url page) st")
  then have a: "Get (page_url url page) 12000 \<in> set (log st1)"
    using get_page_content_requests[of "page_url url page" net st] by simp
  have "advances st1 (snd (parse_category_page_and_games L net url page st))"
    using parse_category_page_and_games_state[OF g, of L] advances_gather_games[of st1 L net]
    by auto
  with a show ?thesis using advances_frame(4) by blast
qed

lemma advances_pages_loop: "advances st (snd (pages_loop L net url ps acc st))"
proof (induction ps arbitrary: acc st)
  case Nil
  then show ?case by simp
next
  case (Cons p ps)
  obtain r st1 where q: "parse_category_page_and_games L net url p st = (r, st1)"
    by (cases "parse_category_page_and_games L net url p st")
  then have "advances st st1" using advances_parse_category_page_and_games[of st L net url p] by simp
  with Cons.IH[of st1 "acc @ r"] show ?case by (simp add: q advances_trans)
qed

lemma pages_loop_requests:
  "p \<in> set ps \<Longrightarrow> Get (page_url url p) 12000 \<in> set (log (snd (pages_loop L net url ps acc st)))"
proof (induction ps arbitrary: acc st)
  case Nil
  then show ?case by simp
next
  case (Cons q ps)
  obtain r st1 where q: "parse_category_page_and_games L net url q st = (r, st1)"
    by (cases "parse_category_page_and_games L net url q st")
  show ?case
  proof (cases "p = q")
    case True
    have "Get (page_url url q) 12000 \<in> set (log st1)"
      using page_requested[of url q L net st] q by simp
    moreover have "advances st1 (snd (pages_loop L net url ps (acc @ r) st1))"
      by (rule advances_pages_loop)
    ultimately show ?thesis using True q advances_frame(4) by fastforce
  next
    case False
    with Cons.prems have "p \<in> set ps" by simp
    from Cons.IH[OF this, of "acc @ r" st1] show ?thesis by (simp add: q)
  qed
qed

lemma parse_category_with_pagination_state:
  assumes "get_page_content net url st = (c, st1)"
  shows "snd (parse_category_with_pagination L P net name url st) = st \<or>
         snd (parse_category_with_pagination L P net name url st) = st1 \<or>
         (\<exists>links. snd (parse_category_with_pagination L P net name url st)
                    = snd (gather_games L net links st1)) \<or>
         (\<exists>links ps acc. snd (parse_category_with_pagination L P net name url st)
                    = snd (pages_loop L net url ps acc (snd (gather_games L net links st1))))"
proof -
  define d where "d = ''Processing category: '' @ name"
  define f where "f = ''[red]Failed category: '' @ name @ ''[/red]''"
  note unfold = parse_category_with_pagination_def d_def[symmetric] f_def[symmetric]
  show ?thesis
  proof (cases "add_task P d")
    case (Inl e)
    then show ?thesis unfolding unfold by simp
  next
    case (Inr task_id)
    show ?thesis
    proof (cases "c = None \<or> c = Some []")
      case True
      then have "snd (parse_category_with_pagination L P net name url st) = st1"
        unfolding unfold by (cases "update P task_id f") (simp_all add: Inr assms)
      then show ?thesis by simp
    next
      case False
      then obtain html where c: "c = Some html" "html \<noteq> []" by (cases c) auto
      let ?sp = "BeautifulSoup L html"
      show ?thesis
      proof (cases "get_total_pages_from_pagination L ?sp")
        case (Inl e)
        have "snd (parse_category_with_pagination L P net name url st) = st1"
          unfolding unfold by (simp add: Inr assms Let_def Inl c)
        then show ?thesis by simp
      next
        case tp: (Inr total_pages)
        obtain rs st2 where
          gg: "gather_games L net (extract_game_links_from_category ?sp) st1 = (rs, st2)"
          by (cases "gather_games L net (extract_game_links_from_category ?sp) st1")
        define mp where
          "mp = (case total_pages of None \<Rightarrow> 999 | Some n \<Rightarrow> (if n \<noteq> 0 then n else 999 :: nat))"
        have st2: "st2 = snd (gather_games L net (extract_game_links_from_category ?sp) st1)"
          by (simp add: gg)
        show ?thesis
        proof (cases "mp > 1")
          case True
          then have "snd (parse_category_with_pagination L P net name url st)
              = snd (pages_loop L net url [2..<mp + 1] (valid_games rs) st2)"
            unfolding unfold
            by (simp add: Inr assms Let_def tp gg mp_def[symmetric] c case_prod_beta)
          then show ?thesis unfolding st2 by blast
        next
          case F2: False
          then have "snd (parse_category_with_pagination L P net name url st) = st2"
            unfolding unfold
            by (simp add: Inr assms Let_def tp gg mp_def[symmetric] c case_prod_beta)
          then show ?thesis unfolding st2 by blast
        qed
      qed
    qed
  qed
qed

lemma advances_parse_category_with_pagination:
  "advances st (snd (parse_category_with_pagination L P net name url st))"
proof -
  obtain c st1 where g: "get_page_content net url st = (c, st1)"
    by (cases "get_page_content net url st")
  then have a: "advances st st1" using advances_get_page_content[of st net url] by simp
  have b: "advances st (snd (gather_games L net us st1))" for us
    using a advances_gather_games[of st1 L net us] by (rule advances_trans)
  have c: "advances st (snd (pages_loop L net url ps acc (snd (gather_games L net us st1))))"
    for us ps acc
    using b advances_pages_loop by (rule advances_trans)
  from parse_category_with_pagination_state[OF g, of L P name]
  show ?thesis using a b c by (elim disjE exE) simp_all
qed

lemma advances_gather_categories: "advances st (snd (gather_categories L P net cs st))"
proof (induction cs arbitrary: st)
  case Nil
  then show ?case by simp
next
  case (Cons c cs)
  obtain name url where c: "c = (name, url)" by (cases c)
  obtain r st1 where p: "parse_category_with_pagination L P net name url st = (r, st1)"
    by (cases "parse_category_with_pagination L P net name url st")
  obtain rs st2 where g: "gather_categories L P net cs st1 = (rs, st2)"
    by (cases "gather_categories L P net cs st1")
  from p have "advances st st1" using advances_parse_category_with_pagination[of st L P net name url] by simp
  moreover from g have "advances st1 st2" using Cons.IH[of st1] by simp
  ultimately show ?case by (simp add: c p g advances_trans)
qed

subsection \<open>From one game to the whole run\<close>

text \<open>
  Whatever holds of every record that \<open>parse_game_info\<close> returns holds of every record
  of a page, of a category and of the run.
\<close>

lemma gather_games_all:
  assumes Q: "\<And>u st g. fst (parse_game_info L net u st) = Some g \<Longrightarrow> Q g"
  shows "\<forall>g \<in> set (valid_games (fst (gather_games L net us st))). Q g"
proof (induction us arbitrary: st)
  case Nil
  then show ?case by (simp add: valid_games_def)
next
  case (Cons u us)
  obtain r st1 where p: "parse_game_info L net u st = (r, st1)" by (cases "parse_game_info L net u st")
  obtain rs st2 where g: "gather_games L net us st1 = (rs, st2)" by (cases "gather_games L net us st1")
  have "\<forall>g \<in> set (valid_games rs). Q g" using Cons.IH[of st1] g by simp
  moreover have "r = Some x \<Longrightarrow> Q x" for x using Q[of u st x] p by simp
  ultimately show ?case by (auto simp: p g valid_games_def split: option.splits)
qed

lemma page_all:
  assumes Q: "\<And>u st g. fst (parse_game_info L net u st) = Some g \<Longrightarrow> Q g"
  shows "\<forall>g \<in> set (fst (parse_category_page_and_games L net url page st)). Q g"
proof -
  obtain c st1 where g: "get_page_content net (page_url url page) st = (c, st1)"
    by (cases "get_page_content net (page_url url page) st")
  let ?links = "extract_game_links_from_category
      (BeautifulSoup L (case c of Some html \<Rightarrow> html | None \<Rightarrow> []))"
  obtain rs st2 where gg: "gather_games L net ?links st1 = (rs, st2)"
    by (cases "gather_games L net ?links st1")
  have "\<forall>g \<in> set (valid_games rs). Q g"
    using gather_games_all[of L net Q ?links st1, OF Q] gg by simp
  then show ?thesis
    by (simp add: parse_category_page_and_games_def g Let_def gg)
qed

lemma pages_loop_all:
  assumes Q: "\<And>u st g. fst (parse_game_info L net u st) = Some g \<Longrightarrow> Q g"
    and acc: "\<forall>g \<in> set acc. Q g"
  shows "\<forall>g \<in> set (fst (pages_loop L net url ps acc st)). Q g"
  using acc
proof (induction ps arbitrary: acc st)
  case Nil
  then show ?case by simp
next
  case (Cons p ps)
  obtain r st1 where q: "parse_category_page_and_games L net url p st = (r, st1)"
    by (cases "parse_category_page_and_games L net url p st")
  have "\<forall>g \<in> set r. Q g" using page_all[of L net Q url p st, OF Q] q by simp
  with Cons.prems have "\<forall>g \<in> set (acc @ r). Q g" by auto
  from Cons.IH[OF this, of st1] show ?case by (simp add: q)
qed

lemma category_all:
  assumes Q: "\<And>u st g. fst (parse_game_info L net u st) = Some g \<Longrightarrow> Q g"
  shows "\<forall>g \<in> set (records_of (fst (parse_category_with_pagination L P net name url st))). Q g"
proof -
  define d where "d = ''Processing category: '' @ name"
  define f where "f = ''[red]Failed category: '' @ name @ ''[/red]''"
  note unfold = parse_category_with_pagination_def d_def[symmetric] f_def[symmetric]
  obtain c st1 where g: "get_page_content net url st = (c, st1)"
    by (cases "get_page_content net url st")
  show ?thesis
  proof (cases "add_task P d")
    case (Inl e)
    then show ?thesis unfolding unfold by (simp add: records_of_def)
  next
    case (Inr task_id)
    show ?thesis
    proof (cases "c = None \<or> c = Some []")
      case True
      then show ?thesis
        unfolding unfold by (cases "update P task_id f") (simp_all add: Inr g records_of_def)
    next
      case False
      then obtain html where c: "c = Some html" "html \<noteq> []" by (cases c) auto
      let ?sp = "BeautifulSoup L html"
      show ?thesis
      proof (cases "get_total_pages_from_pagination L ?sp")
        case (Inl e)
        show ?thesis
          unfolding unfold by (simp add: Inr g Let_def Inl c records_of_def)
      next
        case tp: (Inr total_pages)
        obtain rs st2 where
          gg: "gather_games L net (extract_game_links_from_category ?sp) st1 = (rs, st2)"
          by (cases "gather_games L net (extract_game_links_from_category ?sp) st1")
        define mp where
          "mp = (case total_pages of None \<Rightarrow> 999 | Some n \<Rightarrow> (if n \<noteq> 0 then n else 999 :: nat))"
        have first: "\<forall>g \<in> set (valid_games rs). Q g"
          using gather_games_all[of L net Q "extract_game_links_from_category ?sp" st1, OF Q] gg
          by simp
        have rest: "\<forall>g \<in> set (fst (pages_loop L net url ps (valid_games rs) st2)). Q g" for ps
          using pages_loop_all[of L net Q "valid_games rs", OF Q first] by simp
        show ?thesis
          unfolding unfold using first rest[of "[2..<mp + 1]"]
          by (simp add: Inr g Let_def tp gg mp_def[symmetric] c case_prod_beta records_of_def)
      qed
    qed
  qed
qed

lemma gather_categories_all:
  assumes Q: "\<And>u st g. fst (parse_game_info L net u st) = Some g \<Longrightarrow> Q g"
  shows "\<forall>r \<in> set (fst (gather_categories L P net cs st)). \<forall>g \<in> set (records_of r). Q g"
proof (induction cs arbitrary: st)
  case Nil
  then show ?case by simp
next
  case (Cons c cs)
  obtain name url where c: "c = (name, url)" by (cases c)
  obtain r st1 where p: "parse_category_with_pagination L P net name url st = (r, st1)"
    by (cases "parse_category_with_pagination L P net name url st")
  obtain rs st2 where g: "gather_categories L P net cs st1 = (rs, st2)"
    by (cases "gather_categories L P net cs st1")
  have "\<forall>g \<in> set (records_of r). Q g"
    using category_all[of L net Q P name url st, OF Q] p by simp
  moreover have "\<forall>r \<in> set rs. \<forall>g \<in> set (records_of r). Q g" using Cons.IH[of st1] g by simp
  ultimately show ?case by (simp add: c p g)
qed

lemma collect_concat: "collect results data = data @ concat (map records_of results)"
proof (induction results arbitrary: data)
  case Nil
  then show ?case by simp
next
  case (Cons r rs)
  then show ?case by (cases r) (simp_all add: records_of_def)
qed

text \<open>
  The records of a run are those already in \<open>games_data\<close> followed by the records of
  every category that returned a list, in the order of the categories.
\<close>

lemma run_concat:
  "run L P net st =
     games_data st @ concat (map records_of (fst (gather_categories L P net (categories st) st)))"
proof -
  obtain rs st1 where g: "gather_categories L P net (categories st) st = (rs, st1)"
    by (cases "gather_categories L P net (categories st) st")
  have "advances st st1" using advances_gather_categories[of st L P net "categories st"] g by simp
  then have "games_data st1 = games_data st" by (rule advances_frame)
  then show ?thesis
    by (simp add: run_def save_to_json_def parse_all_categories_def g collect_concat)
qed

lemma run_all:
  assumes Q: "\<And>u st g. fst (parse_game_info L net u st) = Some g \<Longrightarrow> Q g"
    and old: "\<forall>g \<in> set (games_data st). Q g"
  shows "\<forall>g \<in> set (run L P net st). Q g"
  using old gather_categories_all[of L net Q P "categories st" st, OF Q]
  by (auto simp: run_concat)

subsection \<open>Month arithmetic of AnkerGames\<close>

lemma div_succ:
  fixes p k :: int
  assumes "0 < k"
  shows "(p + 1) div k = p div k + (if (p + 1) mod k = 0 then 1 else 0)"
proof (cases "(p + 1) mod k = 0")
  case True
  have "p + 1 = k * ((p + 1) div k)" using True by (simp add: mod_eq_0_iff_dvd)
  then have "p = k * ((p + 1) div k - 1) + (k - 1)" by (simp add: algebra_simps)
  then have "p div k = (p + 1) div k - 1"
    using assms by (intro int_div_pos_eq[where r = "k - 1"]) simp_all
  with True show ?thesis by simp
next
  case False
  define r where "r = (p + 1) mod k"
  have "0 \<le> r" "r < k" using assms by (simp_all add: r_def)
  with False have r: "0 < r" "r < k" by (simp_all add: r_def)
  have "p + 1 = k * ((p + 1) div k) + r" by (simp add: r_def)
  then have "p = k * ((p + 1) div k) + (r - 1)" by simp
  then have "p div k = (p + 1) div k"
    using r by (intro int_div_pos_eq[where r = "r - 1"]) simp_all
  with False show ?thesis by simp
qed

lemma days_before_year_step:
  "days_before_year (y + 1) = days_before_year y + (if is_leap y then 366 else 365)"
proof -
  define q4 where "q4 = (y - 1) div 4"
  define q100 where "q100 = (y - 1) div 100"
  define q400 where "q400 = (y - 1) div 400"
  have a: "y div 4 = q4 + (if y mod 4 = 0 then 1 else 0)"
    using div_succ[of 4 "y - 1"] by (simp add: q4_def)
  have b: "y div 100 = q100 + (if y mod 100 = 0 then 1 else 0)"
    using div_succ[of 100 "y - 1"] by (simp add: q100_def)
  have c: "y div 400 = q400 + (if y mod 400 = 0 then 1 else 0)"
    using div_succ[of 400 "y - 1"] by (simp add: q400_def)
  have d1: "y mod 100 = 0" if "y mod 400 = 0"
    using that mod_mod_cancel[of 100 400 y] by simp
  have d2: "y mod 4 = 0" if "y mod 100 = 0"
    using that mod_mod_cancel[of 4 100 y] by simp
  have e: "days_before_year (y + 1) - days_before_year y =
      365 + (y div 4 - q4) - (y div 100 - q100) + (y div 400 - q400)"
    by (simp add: days_before_year_def Let_def algebra_simps q4_def q100_def q400_def)
  consider (n4) "y mod 4 \<noteq> 0" | (n100) "y mod 4 = 0" "y mod 100 \<noteq> 0"
    | (n400) "y mod 100 = 0" "y mod 400 \<noteq> 0" | (y400) "y mod 400 = 0"
    by argo
  then have "days_before_year (y + 1) - days_before_year y = (if is_leap y then 366 else 365)"
  proof cases
    case n4
    with d1 d2 have "y mod 100 \<noteq> 0" "y mod 400 \<noteq> 0" by argo+
    with n4 show ?thesis by (simp only: e a b c is_leap_def) simp
  next
    case n100
    with d1 have "y mod 400 \<noteq> 0" by argo
    with n100 show ?thesis by (simp only: e a b c is_leap_def) simp
  next
    case n400
    with d2 have "y mod 4 = 0" by argo
    with n400 show ?thesis by (simp only: e a b c is_leap_def) simp
  next
    case y400
    with d1 d2 have "y mod 100 = 0" "y mod 4 = 0" by argo+
    with y400 show ?thesis by (simp only: e a b c is_leap_def) simp
  qed
  then show ?thesis by simp
qed

lemma sub_days_same_time:
  "hour a = hour b \<Longrightarrow> minute a = minute b \<Longrightarrow> second a = second b \<Longrightarrow>
   microsecond a = microsecond b \<Longrightarrow> sub_days a b = toordinal a - toordinal b"
  by (simp add: sub_days_def seconds_of_day_def)

text \<open>
  The helper \<open>_days_in_month\<close> agrees with the calendar for every month of the years
  1 to 9999 except December 9999, where building the first day of the next month fails.
\<close>

lemma days_in_month_table:
  assumes "MINYEAR \<le> y" "y \<le> MAXYEAR" "1 \<le> m" "m \<le> 12" "\<not> (y = MAXYEAR \<and> m = 12)"
  shows "days_in_month y m = Inr (lib_days_in_month y m)"
proof -
  from assms have "m = 1 \<or> m = 2 \<or> m = 3 \<or> m = 4 \<or> m = 5 \<or> m = 6 \<or> m = 7 \<or> m = 8
      \<or> m = 9 \<or> m = 10 \<or> m = 11 \<or> m = 12" by arith
  then show ?thesis
    using assms
    apply (elim disjE)
    apply (simp_all add: days_in_month_def datetime_new_def check_date_fields_def
        check_time_fields_def lib_days_in_month_def DAYS_IN_MONTH_def sub_days_same_time
        toordinal_def days_before_month_def DAYS_BEFORE_MONTH_def days_before_year_step
        MINYEAR_def MAXYEAR_def utc_def)
    done
qed

lemma days_in_month_december_9999: "days_in_month 9999 12 = Inl ValueError"
  by (simp add: days_in_month_def datetime_new_def check_date_fields_def MINYEAR_def
      MAXYEAR_def)

text \<open>
  C10, as stated, fails: 24300 months before 15 January 2025 is January of the year 0,
  which no \<open>datetime\<close> represents, and \<open>subtract_months\<close> raises \<open>ValueError\<close>.
\<close>

theorem subtract_months_year_zero_raises:
  "subtract_months \<lparr>year = 2025, month = 1, day = 15, hour = 0, minute = 0, second = 0,
      microsecond = 0, tzinfo = utc\<rparr> 24300 = Inl ValueError"
  by (simp add: subtract_months_def days_in_month_def datetime_new_def check_date_fields_def
      MINYEAR_def MAXYEAR_def)

text \<open>
  C10 (amended): for every datetime \<open>dt\<close> and every non-negative number \<open>months\<close> such
  that the month reached lies in the year 1 or later and is not December 9999,
  \<open>subtract_months dt months\<close> returns a datetime whose absolute month index
  \<open>year * 12 + (month - 1)\<close> is exactly \<open>months\<close> less than that of \<open>dt\<close>, whose day is
  the minimum of the day of \<open>dt\<close> and the number of days of the month reached, and whose
  hour, minute, second, microsecond and time zone are those of \<open>dt\<close>.
\<close>

theorem subtract_months_result:
  assumes v: "valid_datetime dt"
    and m: "0 \<le> months"
    and lo: "12 \<le> year dt * 12 + (month dt - 1) - months"
    and nd: "year dt * 12 + (month dt - 1) - months \<noteq> 9999 * 12 + 11"
  shows "\<exists>r. subtract_months dt months = Inr r \<and>
           year r * 12 + (month r - 1) = year dt * 12 + (month dt - 1) - months \<and>
           1 \<le> month r \<and> month r \<le> 12 \<and>
           day r = min (day dt) (lib_days_in_month (year r) (month r)) \<and>
           hour r = hour dt \<and> minute r = minute dt \<and> second r = second dt \<and>
           microsecond r = microsecond dt \<and> tzinfo r = tzinfo dt"
proof -
  define mi where "mi = year dt * 12 + (month dt - 1) - months"
  define ny where "ny = mi div 12"
  define nm where "nm = mi mod 12 + 1"
  have nm: "1 \<le> nm" "nm \<le> 12" by (simp_all add: nm_def)
  have yb: "year dt \<le> 9999" "1 \<le> month dt" "month dt \<le> 12"
    using v by (simp_all add: valid_datetime_def check_date_fields_def MAXYEAR_def)
  have lo': "MINYEAR \<le> ny" using lo by (simp add: ny_def mi_def MINYEAR_def)
  have hi': "ny \<le> MAXYEAR" using m yb by (simp add: ny_def mi_def MAXYEAR_def)
  have nd': "\<not> (ny = MAXYEAR \<and> nm = 12)"
    using nd unfolding ny_def nm_def mi_def MAXYEAR_def by presburger
  have dim: "days_in_month ny nm = Inr (lib_days_in_month ny nm)"
    using lo' hi' nd' nm by (intro days_in_month_table)
  have pos: "28 \<le> lib_days_in_month ny nm"
    by (simp add: lib_days_in_month_def DAYS_IN_MONTH_def)
  have d: "1 \<le> day dt"
    and t: "check_time_fields (hour dt) (minute dt) (second dt) (microsecond dt)"
    using v by (simp_all add: valid_datetime_def check_date_fields_def)
  have chk: "check_date_fields ny nm (min (day dt) (lib_days_in_month ny nm))"
    using lo' hi' nm d pos by (simp add: check_date_fields_def)
  have "subtract_months dt months =
      Inr \<lparr>year = ny, month = nm, day = min (day dt) (lib_days_in_month ny nm), hour = hour dt,
           minute = minute dt, second = second dt, microsecond = microsecond dt,
           tzinfo = tzinfo dt\<rparr>"
    using dim chk t
    by (simp add: subtract_months_def Let_def replace_date_def datetime_new_def
        mi_def[symmetric] ny_def[symmetric] nm_def[symmetric])
  moreover have "ny * 12 + (nm - 1) = mi" by (simp add: ny_def nm_def)
  ultimately show ?thesis using nm by (simp add: mi_def)
qed

theorem subtract_months_result_witness:
  "\<exists>r. subtract_months \<lparr>year = 2025, month = 3, day = 31, hour = 10, minute = 20, second = 30,
          microsecond = 5, tzinfo = utc\<rparr> 1 = Inr r \<and>
        year r * 12 + (month r - 1) = 2025 * 12 + 1 \<and> day r = 28 \<and> hour r = 10 \<and>
        minute r = 20 \<and> second r = 30 \<and> microsecond r = 5 \<and> tzinfo r = utc"
proof -
  let ?dt = "\<lparr>year = 2025, month = 3, day = 31, hour = 10, minute = 20, second = 30,
      microsecond = 5, tzinfo = utc\<rparr>"
  have v: "valid_datetime ?dt"
    by (simp add: valid_datetime_def check_date_fields_def check_time_fields_def
        lib_days_in_month_def DAYS_IN_MONTH_def MINYEAR_def MAXYEAR_def)
  from subtract_months_result [of ?dt 1, OF v]
  obtain r where r: "subtract_months ?dt 1 = Inr r"
    "year r * 12 + (month r - 1) = 2025 * 12 + 1" "1 \<le> month r" "month r \<le> 12"
    "day r = min 31 (lib_days_in_month (year r) (month r))"
    "hour r = 10" "minute r = 20" "second r = 30" "microsecond r = 5" "tzinfo r = utc"
    by auto
  from r(2,3,4) have "year r = 2025 \<and> month r = 2" by presburger
  with r(5) have "day r = 28"
    by (simp add: lib_days_in_month_def DAYS_IN_MONTH_def is_leap_def)
  with r show ?thesis by blast
qed

end
